theory Spec2Isabelle
  imports Main "HOL-Library.Sublist"
begin

section \<open>Data model (types.ts)\<close>

text \<open>
  Strings are byte lists: a JavaScript string is modelled by its UTF-8 encoding. Every
  string operation of the interpreter (equality, \<^verbatim>\<open>startsWith('/')\<close>,
  \<^verbatim>\<open>split('/')\<close>, \<^verbatim>\<open>join('/')\<close>, \<^verbatim>\<open>replace('//', '/')\<close>,
  \<^verbatim>\<open>replace('./', '')\<close>) has an ASCII pattern, and an ASCII byte never occurs inside
  a multi-byte sequence, so the encoding commutes with all of them.

  Optional boolean fields are only ever tested for truthiness, so \<^verbatim>\<open>undefined\<close> and
  \<^verbatim>\<open>false\<close> are both \<open>False\<close>. Optional strings and the optional child
  array keep the distinction between absent and present.
\<close>

datatype FileType = FILE | DIRECTORY

datatype GameState = BOOT | PLAYING | WIN | LOSE

datatype FileNode = FileNode
  (name: string)
  (ftype: FileType)
  (content: "string option")
  (children: "FileNode list option")
  (isHidden: bool)
  (password: "string option")
  (isLocked: bool)
  (isEvidence: bool)
  (scriptAction: "string option")

text \<open>Truthiness of an optional string: absent and the empty string are falsy.\<close>

definition truthy :: "string option \<Rightarrow> bool" where
  "truthy v = (case v of None \<Rightarrow> False | Some x \<Rightarrow> x \<noteq> [])"

text \<open>\<^verbatim>\<open>v || d\<close> on an optional string.\<close>

definition orElse :: "string option \<Rightarrow> string \<Rightarrow> string" where
  "orElse v d = (if truthy v then the v else d)"

text \<open>
  The transcript texts are template strings, most of them Chinese. Each template is a
  constructor carrying the values spliced into it; \<open>Text\<close> is a string printed verbatim
  (the typed line, a file's content, a directory listing).
\<close>

datatype Msg =
    Text string
  | HelpText
  | EmptyDirectory
  | InvalidPath string
  | DirNotFound string
  | AccessDenied string
  | UsageCat
  | FileNotFound string
  | FileNotFoundHidden string
  | EvidenceSaved string
  | UsageSearch
  | FoundHidden string
  | NeedPassword FileType string
  | Entered string
  | ScriptHint string string
  | AlreadyExists string
  | NoSuchHidden
  | UsageRm
  | RmDenied
  | FileDeleted string
  | RmNotFound string
  | ScriptNotFound string
  | CommandNotFound string
  | Connecting
  | AlarmCall
  | AlarmMonologue
  | Cracking
  | CrackAlert
  | CrackKey
  | IncompleteEvidence
  | Packing
  | VerifyFailed

datatype LineType = Input | Output | System | Monologue

text \<open>A transcript line; its random React key \<^verbatim>\<open>id\<close> is left out.\<close>

record TerminalLine =
  ltype :: LineType
  lcontent :: Msg
  lpath :: "string option"

text \<open>
  A continuation scheduled with \<^verbatim>\<open>setTimeout\<close>. The closure of the disguise script
  captures the two booleans computed when the script was started.
\<close>

datatype Timer = AlarmT | CrackT | DisguiseT bool bool

text \<open>
  \<open>Snapshot\<close> is the persisted shape (the seven React state variables); \<open>State\<close>
  adds what lives outside React state: the checkpoint slot of localStorage, the pending
  timers with their delay in milliseconds, and the alert boxes shown.
  The state variable \<^verbatim>\<open>passwordPrompt\<close> is initialised to null and its setter is
  never called, so the early return it guards in \<^verbatim>\<open>handleCommand\<close> is dead and the
  variable is left out.
\<close>

record Snapshot =
  fileSystem :: FileNode
  currentPath :: "string list"
  history :: "TerminalLine list"
  discoveredPaths :: "string set"
  evidenceCollected :: "string set"
  gameState :: GameState
  bootSequence :: "string list"

record State = Snapshot +
  checkpoint :: "Snapshot option"
  timers :: "(nat \<times> Timer) list"
  alerts :: "Msg list"

section \<open>String helpers\<close>

text \<open>\<^verbatim>\<open>parts.join(sep)\<close>\<close>

fun join :: "string \<Rightarrow> string list \<Rightarrow> string" where
  "join sep [] = []"
| "join sep [x] = x"
| "join sep (x # y # ys) = x @ sep @ join sep (y # ys)"

text \<open>\<^verbatim>\<open>s.replace(pat, rep)\<close> with a string pattern: the first occurrence only.\<close>

fun replaceFirst :: "string \<Rightarrow> string \<Rightarrow> string \<Rightarrow> string" where
  "replaceFirst pat rep [] = (if pat = [] then rep else [])"
| "replaceFirst pat rep (c # cs) =
     (if prefix pat (c # cs) then rep @ drop (length pat) (c # cs)
      else c # replaceFirst pat rep cs)"

text \<open>\<^verbatim>\<open>s.split(d)\<close> with a one-character separator.\<close>

fun splitOn :: "char \<Rightarrow> string \<Rightarrow> string list" where
  "splitOn d [] = ['''']"
| "splitOn d (c # cs) =
     (if c = d then [] # splitOn d cs
      else (case splitOn d cs of [] \<Rightarrow> [c] # [] | w # ws \<Rightarrow> (c # w) # ws))"

text \<open>\<^verbatim>\<open>args[i]\<close>: undefined past the end.\<close>

definition arg :: "string list \<Rightarrow> nat \<Rightarrow> string option" where
  "arg args i = (if i < length args then Some (args ! i) else None)"

section \<open>Paths and lookup\<close>

definition getPathString :: "string list \<Rightarrow> string" where
  "getPathString parts =
     (if length parts = 1 then ''/'' else replaceFirst ''//'' ''/'' (join ''/'' parts))"

text \<open>
  \<^verbatim>\<open>pathParts[0] === '' ? pathParts.slice(1) : pathParts\<close>. On the empty array
  \<^verbatim>\<open>pathParts[0]\<close> is undefined and the array is kept.
\<close>

definition pathTail :: "string list \<Rightarrow> string list" where
  "pathTail pathParts =
     (case pathParts of [] \<Rightarrow> [] | p # ps \<Rightarrow> if p = [] then ps else p # ps)"

text \<open>The loop of \<^verbatim>\<open>findNode\<close>.\<close>

fun walk :: "string list \<Rightarrow> FileNode \<Rightarrow> FileNode option" where
  "walk [] cur = Some cur"
| "walk (part # parts) cur =
     (if ftype cur \<noteq> DIRECTORY then None
      else (case children cur of
              None \<Rightarrow> None
            | Some cs \<Rightarrow>
                (case find (\<lambda>c. name c = part) cs of
                   None \<Rightarrow> None
                 | Some found \<Rightarrow> walk parts found)))"

text \<open>
  \<^verbatim>\<open>findNode\<close>. Its first line returns the root for the path \<^verbatim>\<open>['']\<close>; the loop
  over the empty rest of that path returns the root as well.
\<close>

definition findNode :: "string list \<Rightarrow> FileNode \<Rightarrow> FileNode option" where
  "findNode pathParts root =
     (if length pathParts = 1 \<and> pathParts ! 0 = [] then Some root
      else walk (pathTail pathParts) root)"

text \<open>\<^verbatim>\<open>node?.children?.find(c => c.name === n)\<close>\<close>

definition childNamed :: "string \<Rightarrow> FileNode option \<Rightarrow> FileNode option" where
  "childNamed n node =
     (case node of
        None \<Rightarrow> None
      | Some d \<Rightarrow> (case children d of None \<Rightarrow> None | Some cs \<Rightarrow> find (\<lambda>c. name c = n) cs))"

definition resolvePath :: "string \<Rightarrow> string list \<Rightarrow> string list option" where
  "resolvePath target cur =
     (if target = ''/'' then Some ['''']
      else if target = ''..'' then
        (if length cur \<le> 1 then Some [''''] else Some (butlast cur))
      else if prefix ''/'' target then
        Some ([] # filter (\<lambda>p. p \<noteq> []) (splitOn CHR ''/'' target))
      else Some (cur @ [target]))"

section \<open>Mutation of the tree\<close>

text \<open>The object patches \<^verbatim>\<open>Object.assign\<close> is called with, and the evidence clone.\<close>

definition assign_unlock :: "FileNode \<Rightarrow> FileNode" where
  "assign_unlock n =
     FileNode (name n) (ftype n) (content n) (children n) (isHidden n) None False
       (isEvidence n) (scriptAction n)"

definition assign_reveal :: "FileNode \<Rightarrow> FileNode" where
  "assign_reveal n =
     FileNode (name n) (ftype n) (content n) (children n) False (password n) (isLocked n)
       (isEvidence n) (scriptAction n)"

definition assign_children :: "FileNode list \<Rightarrow> FileNode \<Rightarrow> FileNode" where
  "assign_children cs n =
     FileNode (name n) (ftype n) (content n) (Some cs) (isHidden n) (password n) (isLocked n)
       (isEvidence n) (scriptAction n)"

definition cloneEvidence :: "FileNode \<Rightarrow> FileNode" where
  "cloneEvidence n =
     FileNode (name n) (ftype n) (content n) (children n) (isHidden n) (password n) (isLocked n)
       False (scriptAction n)"

text \<open>Replace the first element satisfying \<open>P\<close>, the one \<^verbatim>\<open>find\<close> returns.\<close>

fun updFirst :: "('a \<Rightarrow> bool) \<Rightarrow> ('a \<Rightarrow> 'a) \<Rightarrow> 'a list \<Rightarrow> 'a list" where
  "updFirst P f [] = []"
| "updFirst P f (x # xs) = (if P x then f x # xs else x # updFirst P f xs)"

text \<open>
  The tree in which the node \<^verbatim>\<open>findNode\<close> reaches along \<open>parts\<close> has been replaced
  by its patched version. It is used only where that node exists.
\<close>

fun updateAt :: "string list \<Rightarrow> (FileNode \<Rightarrow> FileNode) \<Rightarrow> FileNode \<Rightarrow> FileNode" where
  "updateAt [] upd cur = upd cur"
| "updateAt (part # parts) upd cur =
     FileNode (name cur) (ftype cur) (content cur)
       (map_option (updFirst (\<lambda>c. name c = part) (\<lambda>c. updateAt parts upd c)) (children cur))
       (isHidden cur) (password cur) (isLocked cur) (isEvidence cur) (scriptAction cur)"

text \<open>
  A command handler runs inside one render: it reads the state variables of its closure
  and queues the next state with the setters. A handler is therefore a function of a pair
  \<open>(cl, acc)\<close>: \<open>cl\<close> is what the closure reads, \<open>acc\<close> is the state being built.

  \<^verbatim>\<open>updateFileSystemNode\<close> copies only the root object (\<^verbatim>\<open>{ ...fileSystem }\<close>) and
  patches the target in place. The setter receives the patched tree. A target below the
  root is an object shared with the closure's tree, so the closure sees the patch too; when
  the target is the root copy itself, the closure's root is untouched. No object is taken to
  occur twice in the tree, as is the case after a save and reload.
\<close>

definition updateFileSystemNode ::
  "string list \<Rightarrow> (FileNode \<Rightarrow> FileNode) \<Rightarrow> State \<times> State \<Rightarrow> State \<times> State" where
  "updateFileSystemNode pathParts updates ca =
     (case ca of (cl, acc) \<Rightarrow>
        (case findNode pathParts (fileSystem cl) of
           None \<Rightarrow> (cl, acc)
         | Some target \<Rightarrow>
             (let newFS = updateAt (pathTail pathParts) updates (fileSystem cl)
              in ((if pathTail pathParts = [] then cl else cl\<lparr>fileSystem := newFS\<rparr>),
                  acc\<lparr>fileSystem := newFS\<rparr>))))"

text \<open>\<^verbatim>\<open>deleteNode\<close>: nothing reads the tree after it, so only the queued state is returned.\<close>

definition deleteNode :: "string \<Rightarrow> State \<Rightarrow> State \<Rightarrow> State" where
  "deleteNode n cl acc =
     (case findNode (currentPath cl) (fileSystem cl) of
        None \<Rightarrow> acc
      | Some parent \<Rightarrow>
          (case children parent of
             None \<Rightarrow> acc
           | Some cs \<Rightarrow>
               acc\<lparr>fileSystem :=
                 updateAt (pathTail (currentPath cl))
                   (assign_children (filter (\<lambda>c. name c \<noteq> n) cs)) (fileSystem cl)\<rparr>))"

section \<open>Transcript, checkpoint and timers\<close>

definition addToHistory :: "State \<Rightarrow> LineType \<Rightarrow> Msg \<Rightarrow> State \<Rightarrow> State" where
  "addToHistory cl t c acc =
     acc\<lparr>history := history acc @
       [\<lparr>ltype = t, lcontent = c,
         lpath = (if t = Input then Some (getPathString (currentPath cl)) else None)\<rparr>]\<rparr>"

definition saveCheckpoint :: "State \<Rightarrow> State \<Rightarrow> State" where
  "saveCheckpoint cl acc =
     acc\<lparr>checkpoint := Some
       \<lparr>fileSystem = fileSystem cl, currentPath = currentPath cl, history = history cl,
        discoveredPaths = discoveredPaths cl, evidenceCollected = evidenceCollected cl,
        gameState = PLAYING, bootSequence = bootSequence cl\<rparr>\<rparr>"

definition restoreFromCheckpoint :: "State \<Rightarrow> State" where
  "restoreFromCheckpoint s =
     (case checkpoint s of
        None \<Rightarrow> s
      | Some d \<Rightarrow>
          s\<lparr>fileSystem := fileSystem d, currentPath := currentPath d, history := history d,
            discoveredPaths := discoveredPaths d, evidenceCollected := evidenceCollected d,
            gameState := PLAYING, bootSequence := bootSequence d\<rparr>)"

definition setTimeout :: "Timer \<Rightarrow> nat \<Rightarrow> State \<Rightarrow> State" where
  "setTimeout t delay acc = acc\<lparr>timers := timers acc @ [(delay, t)]\<rparr>"

text \<open>
  What a continuation does when it fires, in the state of that moment. Its own
  \<^verbatim>\<open>addToHistory\<close> appends through the functional setter and records no path.
\<close>

fun fire :: "Timer \<Rightarrow> State \<Rightarrow> State" where
  "fire AlarmT s = addToHistory s Monologue AlarmMonologue (s\<lparr>alerts := alerts s @ [AlarmCall]\<rparr>)"
| "fire CrackT s = addToHistory s System CrackKey (s\<lparr>alerts := alerts s @ [CrackAlert]\<rparr>)"
| "fire (DisguiseT hasForbidden hasAllRequired) s =
     (if hasForbidden then s\<lparr>gameState := LOSE\<rparr>
      else if hasAllRequired then s\<lparr>gameState := WIN\<rparr>
      else addToHistory s Output VerifyFailed s)"

text \<open>The \<open>i\<close>-th pending timer fires and leaves the queue.\<close>

definition fireTimer :: "nat \<Rightarrow> State \<Rightarrow> State" where
  "fireTimer i s =
     (if i < length (timers s)
      then fire (snd (timers s ! i)) (s\<lparr>timers := take i (timers s) @ drop (Suc i) (timers s)\<rparr>)
      else s)"

section \<open>Scripts\<close>

definition evidencePrefix :: string where
  "evidencePrefix = [CHR 0xE8, CHR 0xAF, CHR 0x81, CHR 0xE6, CHR 0x8D, CHR 0xAE]"

definition chenbing_liuqingyuan :: string where
  "chenbing_liuqingyuan =
     [CHR 0xE9, CHR 0x99, CHR 0x88, CHR 0xE5, CHR 0x86, CHR 0xB0, CHR 0x2D, CHR 0xE5,
      CHR 0x88, CHR 0x98, CHR 0xE9, CHR 0x9D, CHR 0x92, CHR 0xE5, CHR 0x8E, CHR 0x9F]"

definition required :: "string list" where
  "required =
     [evidencePrefix @ ''_1.txt'', chenbing_liuqingyuan, evidencePrefix @ ''_3.txt'',
      evidencePrefix @ ''_5.txt'', evidencePrefix @ ''_6.txt'', evidencePrefix @ ''_8.txt'']"

definition forbidden :: "string list" where
  "forbidden = [evidencePrefix @ ''_4.txt'', evidencePrefix @ ''_7.txt'']"

definition homeUserPath :: "string list" where
  "homeUserPath = ['''', ''home'', ''user'']"

text \<open>\<^verbatim>\<open>userFolder?.children?.map(c => c.name) || []\<close>\<close>

definition userFiles :: "FileNode \<Rightarrow> string list" where
  "userFiles fs =
     (case findNode homeUserPath fs of
        None \<Rightarrow> []
      | Some userFolder \<Rightarrow> (case children userFolder of None \<Rightarrow> [] | Some cs \<Rightarrow> map name cs))"

definition hasAllRequired :: "FileNode \<Rightarrow> bool" where
  "hasAllRequired fs = list_all (\<lambda>f. f \<in> set (userFiles fs)) required"

definition hasForbidden :: "FileNode \<Rightarrow> bool" where
  "hasForbidden fs = list_ex (\<lambda>f. f \<in> set (userFiles fs)) forbidden"

definition executeScript :: "string \<Rightarrow> string list \<Rightarrow> State \<Rightarrow> State \<Rightarrow> State" where
  "executeScript action args cl acc =
     (if action = ''ALARM_SCRIPT'' then
        setTimeout AlarmT 1000 (addToHistory cl System Connecting acc)
      else if action = ''CRACK_SCRIPT'' then
        setTimeout CrackT 1500 (addToHistory cl System Cracking acc)
      else if action = ''DISGUISE_SCRIPT'' then
        (if card (evidenceCollected cl) < 6 then addToHistory cl Output IncompleteEvidence acc
         else setTimeout (DisguiseT (hasForbidden (fileSystem cl)) (hasAllRequired (fileSystem cl)))
                2000 (saveCheckpoint cl (addToHistory cl System Packing acc)))
      else acc)"

section \<open>Commands\<close>

text \<open>
  The evidence block, written out twice in the source (in \<^verbatim>\<open>cat\<close> and in
  \<^verbatim>\<open>search\<close>). The ledger test reads the closure's set; the setter adds to the
  queued one.
\<close>

definition collectEvidence :: "FileNode \<Rightarrow> State \<times> State \<Rightarrow> State \<times> State" where
  "collectEvidence node ca =
     (case ca of (cl, acc) \<Rightarrow>
        if isEvidence node \<and> name node \<notin> evidenceCollected cl then
          (let acc1 = addToHistory cl System (EvidenceSaved (name node))
                        (acc\<lparr>evidenceCollected := insert (name node) (evidenceCollected acc)\<rparr>)
           in case findNode homeUserPath (fileSystem cl) of
                None \<Rightarrow> (cl, acc1)
              | Some homeUser \<Rightarrow>
                  (case children homeUser of
                     None \<Rightarrow> (cl, acc1)
                   | Some kids \<Rightarrow>
                       if find (\<lambda>c. name c = name node) kids \<noteq> None then (cl, acc1)
                       else updateFileSystemNode homeUserPath
                              (assign_children (kids @ [cloneEvidence node])) (cl, acc1)))
        else (cl, acc))"

definition cmd_ls :: "State \<Rightarrow> State \<Rightarrow> State" where
  "cmd_ls cl acc =
     (case findNode (currentPath cl) (fileSystem cl) of
        None \<Rightarrow> acc
      | Some node \<Rightarrow>
          if ftype node = DIRECTORY then
            (let acc1 = acc\<lparr>discoveredPaths :=
                              insert (getPathString (currentPath cl)) (discoveredPaths acc)\<rparr>;
                 visibleChildren =
                   map_option
                     (\<lambda>cs. map (\<lambda>c. if ftype c = DIRECTORY then ''[DIR] '' @ name c else name c)
                             (filter (\<lambda>c. \<not> isHidden c) cs))
                     (children node)
             in case visibleChildren of
                  None \<Rightarrow> addToHistory cl Output EmptyDirectory acc1
                | Some vs \<Rightarrow>
                    if length vs = 0 then addToHistory cl Output EmptyDirectory acc1
                    else addToHistory cl Output (Text (join [CHR 0x0A] vs)) acc1)
          else acc)"

text \<open>
  \<^verbatim>\<open>cd\<close>. The source's \<^verbatim>\<open>if (targetNode.isHidden && !targetNode.isLocked)\<close> has an
  empty body and is left out; \<^verbatim>\<open>resolvePath\<close> never returns null, the branch for it is
  kept as written.
\<close>

definition cmd_cd :: "string list \<Rightarrow> State \<Rightarrow> State \<Rightarrow> State" where
  "cmd_cd args cl acc =
     (if \<not> truthy (arg args 0) then acc\<lparr>currentPath := ['''']\<rparr>
      else
        (case resolvePath (args ! 0) (currentPath cl) of
           None \<Rightarrow> addToHistory cl Output (InvalidPath (args ! 0)) acc
         | Some targetPath \<Rightarrow>
             (case findNode targetPath (fileSystem cl) of
                None \<Rightarrow> addToHistory cl Output (DirNotFound (args ! 0)) acc
              | Some targetNode \<Rightarrow>
                  if ftype targetNode \<noteq> DIRECTORY then
                    addToHistory cl Output (DirNotFound (args ! 0)) acc
                  else if truthy (password targetNode) then
                    (if arg args 1 = password targetNode then
                       (snd (updateFileSystemNode targetPath assign_unlock (cl, acc)))
                         \<lparr>currentPath := targetPath\<rparr>
                     else addToHistory cl Output (AccessDenied (name targetNode)) acc)
                  else acc\<lparr>currentPath := targetPath\<rparr>)))"

text \<open>The node \<^verbatim>\<open>cat\<close> settles on: the resolved path, else a child of the current directory.\<close>

definition catTarget :: "string \<Rightarrow> State \<Rightarrow> FileNode option" where
  "catTarget a cl =
     (let fileNode = (case resolvePath a (currentPath cl) of
                        None \<Rightarrow> None
                      | Some targetFilePath \<Rightarrow> findNode targetFilePath (fileSystem cl))
      in if (case fileNode of None \<Rightarrow> True | Some f \<Rightarrow> ftype f \<noteq> FILE)
         then childNamed a (findNode (currentPath cl) (fileSystem cl))
         else fileNode)"

definition cmd_cat :: "string list \<Rightarrow> State \<Rightarrow> State \<Rightarrow> State" where
  "cmd_cat args cl acc =
     (if \<not> truthy (arg args 0) then addToHistory cl Output UsageCat acc
      else
        (case catTarget (args ! 0) cl of
           None \<Rightarrow> addToHistory cl Output (FileNotFound (args ! 0)) acc
         | Some fileNode \<Rightarrow>
             if ftype fileNode \<noteq> FILE then addToHistory cl Output (FileNotFound (args ! 0)) acc
             else if isHidden fileNode then
               addToHistory cl Output (FileNotFoundHidden (args ! 0)) acc
             else
               (case collectEvidence fileNode (cl, acc) of (cl1, acc1) \<Rightarrow>
                  if truthy (scriptAction fileNode) then
                    executeScript (the (scriptAction fileNode)) args cl1 acc1
                  else addToHistory cl Output (Text (orElse (content fileNode) [])) acc1)))"

text \<open>
  In \<^verbatim>\<open>search\<close> the reveal patches \<^verbatim>\<open>found\<close> in place before its fields are read
  again. When \<^verbatim>\<open>findNode\<close> reaches a node along the child's path, that node is
  \<^verbatim>\<open>found\<close> itself, unless the path is \<^verbatim>\<open>['']\<close>, which is taken for the root;
  when it reaches none (the current node is not a directory), nothing is patched.
\<close>

text \<open>The placeholder an absent script body is shown as: the word for "script" in brackets.\<close>

definition scriptPlaceholder :: string where
  "scriptPlaceholder = ''('' @ [CHR 0xE8, CHR 0x84, CHR 0x9A, CHR 0xE6, CHR 0x9C, CHR 0xAC] @ '')''"

definition cmd_search :: "string list \<Rightarrow> State \<Rightarrow> State \<Rightarrow> State" where
  "cmd_search args cl acc =
     (if \<not> truthy (arg args 0) then addToHistory cl Output UsageSearch acc
      else
        (case childNamed (args ! 0) (findNode (currentPath cl) (fileSystem cl)) of
           None \<Rightarrow> addToHistory cl Output NoSuchHidden acc
         | Some found0 \<Rightarrow>
             if isHidden found0 then
               (let childPath = currentPath cl @ [name found0];
                    found = (if findNode childPath (fileSystem cl) = None \<or> pathTail childPath = []
                             then found0 else assign_reveal found0)
                in case updateFileSystemNode childPath assign_reveal (cl, acc) of (cl1, acc1) \<Rightarrow>
                   (let acc2 = addToHistory cl System (FoundHidden (name found)) acc1
                    in if truthy (password found) then
                         addToHistory cl Output (NeedPassword (ftype found) (name found)) acc2
                       else if ftype found = DIRECTORY then
                         addToHistory cl System (Entered (name found))
                           (acc2\<lparr>currentPath := childPath\<rparr>)
                       else if truthy (scriptAction found) then
                         addToHistory cl Output
                           (ScriptHint (name found) (orElse (content found) scriptPlaceholder)) acc2
                       else
                         snd (collectEvidence found
                                (cl1, addToHistory cl Output (Text (orElse (content found) [])) acc2))))
             else addToHistory cl Output (AlreadyExists (name found0)) acc))"

definition cmd_rm :: "string list \<Rightarrow> State \<Rightarrow> State \<Rightarrow> State" where
  "cmd_rm args cl acc =
     (if \<not> truthy (arg args 0) then addToHistory cl Output UsageRm acc
      else if getPathString (currentPath cl) \<noteq> ''/home/user'' then
        addToHistory cl Output RmDenied acc
      else
        (case childNamed (args ! 0) (findNode (currentPath cl) (fileSystem cl)) of
           Some fileExists \<Rightarrow>
             (let acc1 = deleteNode (args ! 0) cl acc;
                  acc2 = (if args ! 0 \<in> evidenceCollected cl
                          then acc1\<lparr>evidenceCollected := evidenceCollected cl - {args ! 0}\<rparr>
                          else acc1)
              in addToHistory cl Output (FileDeleted (args ! 0)) acc2)
         | None \<Rightarrow> addToHistory cl Output (RmNotFound (args ! 0)) acc))"

definition disguise_sh :: string where
  "disguise_sh = ''./'' @ [CHR 0xE4, CHR 0xBC, CHR 0xAA, CHR 0xE8, CHR 0xA3, CHR 0x85] @ ''.sh''"

definition alarm_sh :: string where
  "alarm_sh = ''./'' @ [CHR 0xE6, CHR 0x8A, CHR 0xA5, CHR 0xE8, CHR 0xAD, CHR 0xA6] @ ''.sh''"

definition cmd_run :: "string \<Rightarrow> string list \<Rightarrow> State \<Rightarrow> State \<Rightarrow> State" where
  "cmd_run cmd args cl acc =
     (let scriptName = replaceFirst ''./'' [] cmd
      in case childNamed scriptName (findNode (currentPath cl) (fileSystem cl)) of
           None \<Rightarrow> addToHistory cl Output (ScriptNotFound scriptName) acc
         | Some scriptNode \<Rightarrow>
             if truthy (scriptAction scriptNode) then
               executeScript (the (scriptAction scriptNode)) args cl acc
             else addToHistory cl Output (ScriptNotFound scriptName) acc)"

text \<open>
  \<^verbatim>\<open>handleCommand\<close> from its tokens on: \<open>parts\<close> is
  \<^verbatim>\<open>cmdStr.trim().split(/\s+/)\<close>, and the empty list stands for a blank line, which
  returns before anything is recorded.
\<close>

definition handleCommand :: "string \<Rightarrow> string list \<Rightarrow> State \<Rightarrow> State" where
  "handleCommand cmdStr parts s =
     (case parts of
        [] \<Rightarrow> s
      | cmd # args \<Rightarrow>
          (let acc = addToHistory s Input (Text cmdStr) s
           in if cmd = ''help'' then addToHistory s Output HelpText acc
              else if cmd = ''ls'' then cmd_ls s acc
              else if cmd = ''cd'' then cmd_cd args s acc
              else if cmd = ''cat'' then cmd_cat args s acc
              else if cmd = ''search'' then cmd_search args s acc
              else if cmd = ''rm'' then cmd_rm args s acc
              else if cmd = disguise_sh \<or> cmd = alarm_sh \<or> cmd = ''./seconddemo.sh'' then
                cmd_run cmd args s acc
              else addToHistory s Output (CommandNotFound cmd) acc))"

text \<open>A session: typed lines, each with its tokens, run in order.\<close>

fun run :: "(string \<times> string list) list \<Rightarrow> State \<Rightarrow> State" where
  "run [] s = s"
| "run (c # cs) s = run cs (handleCommand (fst c) (snd c) s)"

section \<open>Evidence bookkeeping\<close>







section \<open>Sample trees and states\<close>

text \<open>
  The initial tree (\<^verbatim>\<open>INITIAL_FILE_SYSTEM\<close>) is data kept outside the interpreter;
  every property below is stated for an arbitrary tree. The trees here are small inputs on
  which the properties are run.
\<close>

definition fileOf :: "string \<Rightarrow> string \<Rightarrow> FileNode" where
  "fileOf n c = FileNode n FILE (Some c) None False None False False None"

definition dirOf :: "string \<Rightarrow> FileNode list \<Rightarrow> FileNode" where
  "dirOf n cs = FileNode n DIRECTORY None (Some cs) False None False False None"

definition packedFS :: "string list \<Rightarrow> FileNode" where
  "packedFS ns = dirOf [] [dirOf ''home'' [dirOf ''user'' (map (\<lambda>n. fileOf n []) ns)]]"

definition stateOf :: "FileNode \<Rightarrow> string list \<Rightarrow> string set \<Rightarrow> State" where
  "stateOf fs cur ev =
     \<lparr>fileSystem = fs, currentPath = cur, history = [], discoveredPaths = {''/''},
      evidenceCollected = ev, gameState = PLAYING, bootSequence = [],
      checkpoint = None, timers = [], alerts = []\<rparr>"

definition demoKids :: "FileNode list" where
  "demoKids =
     [dirOf ''home'' [dirOf ''user'' []],
      FileNode ''vault'' DIRECTORY None (Some [fileOf ''inner.txt'' ''x'']) False (Some ''pw'') True
        False None,
      FileNode ''cellar'' DIRECTORY None (Some []) True None False False None,
      FileNode ''secret.txt'' FILE (Some ''top'') None False (Some ''k'') True False None,
      FileNode ''ghost.txt'' FILE (Some ''boo'') None True None False True None,
      FileNode ''clue.txt'' FILE (Some ''clue'') None False None False True None,
      dirOf ''a'' [dirOf ''b'' []],
      FileNode ''safe'' DIRECTORY None (Some []) True (Some ''pw'') True False None,
      FileNode ''crack.sh'' FILE None None True None False False (Some ''CRACK_SCRIPT'')]"

definition demoFS :: FileNode where
  "demoFS = dirOf [] demoKids"

definition demo :: State where
  "demo = stateOf demoFS [''''] {}"

definition scriptFS :: "string list \<Rightarrow> FileNode" where
  "scriptFS ns = dirOf []
     [dirOf ''home'' [dirOf ''user'' (map (\<lambda>n. fileOf n []) ns)],
      FileNode (replaceFirst ''./'' [] disguise_sh) FILE None None False None False False
        (Some ''DISGUISE_SCRIPT'')]"

definition raceSession :: "(string \<times> string list) list" where
  "raceSession =
     [(''cd /home/user'', [''cd'', ''/home/user'']),
      (''rm'', [''rm'', forbidden ! 0]),
      (''rm'', [''rm'', forbidden ! 1])]"



section \<open>Basic facts\<close>

lemma addToHistory_simps [simp]:
  "fileSystem (addToHistory cl t c acc) = fileSystem acc"
  "currentPath (addToHistory cl t c acc) = currentPath acc"
  "discoveredPaths (addToHistory cl t c acc) = discoveredPaths acc"
  "evidenceCollected (addToHistory cl t c acc) = evidenceCollected acc"
  "gameState (addToHistory cl t c acc) = gameState acc"
  "bootSequence (addToHistory cl t c acc) = bootSequence acc"
  "checkpoint (addToHistory cl t c acc) = checkpoint acc"
  "timers (addToHistory cl t c acc) = timers acc"
  "alerts (addToHistory cl t c acc) = alerts acc"
  by (simp_all add: addToHistory_def)

section \<open>The disguise script\<close>

text \<open>
  C1. The disguise script, started in a closure \<open>cl\<close>: with fewer than six names in
  the ledger it only prints the incomplete-evidence line (no checkpoint, no timer, no change
  of phase or tree). With six or more it stores a checkpoint, the closure's snapshot with
  the phase set to PLAYING, and schedules one continuation; the phase is still unchanged at
  that point. When the continuation fires, the phase becomes LOSE if a forbidden name is in
  the intake directory, otherwise WIN if all required names are there, otherwise the phase
  is left as it was and the verification-failure line is printed. The forbidden set has
  two names, the required set six.
\<close>

theorem disguise_script:
  "(let s1 = executeScript ''DISGUISE_SCRIPT'' args cl acc;
        lose = (\<exists>f \<in> set forbidden. f \<in> set (userFiles (fileSystem cl)));
        win = (\<forall>f \<in> set required. f \<in> set (userFiles (fileSystem cl)))
    in (card (evidenceCollected cl) < 6 \<longrightarrow>
          s1 = addToHistory cl Output IncompleteEvidence acc \<and>
          checkpoint s1 = checkpoint acc \<and> timers s1 = timers acc \<and>
          gameState s1 = gameState acc \<and> fileSystem s1 = fileSystem acc) \<and>
       (6 \<le> card (evidenceCollected cl) \<longrightarrow>
          checkpoint s1 = Some
            \<lparr>fileSystem = fileSystem cl, currentPath = currentPath cl, history = history cl,
             discoveredPaths = discoveredPaths cl, evidenceCollected = evidenceCollected cl,
             gameState = PLAYING, bootSequence = bootSequence cl\<rparr> \<and>
          gameState s1 = gameState acc \<and>
          timers s1 = timers acc @
            [(2000, DisguiseT (hasForbidden (fileSystem cl)) (hasAllRequired (fileSystem cl)))] \<and>
          gameState (fireTimer (length (timers acc)) s1) =
            (if lose then LOSE else if win then WIN else gameState acc) \<and>
          history (fireTimer (length (timers acc)) s1) =
            (if lose \<or> win then history s1
             else history s1 @ [\<lparr>ltype = Output, lcontent = VerifyFailed, lpath = None\<rparr>]))) \<and>
   length forbidden = 2 \<and> length required = 6 \<and> distinct forbidden \<and> distinct required"
proof -
  have sizes: "length forbidden = 2 \<and> length required = 6 \<and> distinct forbidden \<and> distinct required"
    by (simp add: forbidden_def required_def evidencePrefix_def chenbing_liuqingyuan_def)
  have small: "card (evidenceCollected cl) < 6 \<Longrightarrow>
      executeScript ''DISGUISE_SCRIPT'' args cl acc = addToHistory cl Output IncompleteEvidence acc"
    by (simp add: executeScript_def)
  have big: "6 \<le> card (evidenceCollected cl) \<Longrightarrow>
      executeScript ''DISGUISE_SCRIPT'' args cl acc =
        setTimeout (DisguiseT (hasForbidden (fileSystem cl)) (hasAllRequired (fileSystem cl))) 2000
          (saveCheckpoint cl (addToHistory cl System Packing acc))"
    by (simp add: executeScript_def)
  show ?thesis
    unfolding Let_def
    using sizes
    by (auto simp: small big setTimeout_def saveCheckpoint_def fireTimer_def
        hasForbidden_def hasAllRequired_def list_ex_iff list_all_iff addToHistory_def)
qed

theorem disguise_script_witness:
  "card (evidenceCollected (stateOf (packedFS (required @ forbidden)) [''''] (set required))) = 6 \<and>
   gameState (fireTimer 0 (executeScript ''DISGUISE_SCRIPT'' []
       (stateOf (packedFS (required @ forbidden)) [''''] (set required))
       (stateOf (packedFS (required @ forbidden)) [''''] (set required)))) = LOSE \<and>
   card (evidenceCollected (stateOf (packedFS required) [''''] (set forbidden))) = 2 \<and>
   checkpoint (executeScript ''DISGUISE_SCRIPT'' []
       (stateOf (packedFS required) [''''] (set forbidden))
       (stateOf (packedFS required) [''''] (set forbidden))) = None"
proof -
  have c6: "card (evidenceCollected (stateOf (packedFS (required @ forbidden)) [''''] (set required))) = 6"
    by code_simp
  have c2: "card (evidenceCollected (stateOf (packedFS required) [''''] (set forbidden))) = 2"
    by code_simp
  have lose: "\<exists>f \<in> set forbidden. f \<in> set (userFiles (fileSystem (stateOf (packedFS (required @ forbidden)) [''''] (set required))))"
    by code_simp
  have nocp: "checkpoint (stateOf (packedFS required) [''''] (set forbidden)) = None"
    by (simp add: stateOf_def)
  have tm: "timers (stateOf (packedFS (required @ forbidden)) [''''] (set required)) = []"
    by (simp add: stateOf_def)
  show ?thesis
    using disguise_script [of "[]" "stateOf (packedFS (required @ forbidden)) [''''] (set required)"
        "stateOf (packedFS (required @ forbidden)) [''''] (set required)"]
      disguise_script [of "[]" "stateOf (packedFS required) [''''] (set forbidden)"
        "stateOf (packedFS required) [''''] (set forbidden)"]
    unfolding Let_def
    using c6 c2 lose nocp tm by simp
qed


section \<open>Facts about the tree\<close>

lemma findNode_walk: "findNode p root = walk (pathTail p) root"
  by (cases p) (auto simp: findNode_def pathTail_def)

lemma handle_cd: "handleCommand l (''cd'' # args) s = cmd_cd args s (addToHistory s Input (Text l) s)"
  by (simp add: handleCommand_def)

lemma handle_cat: "handleCommand l (''cat'' # args) s = cmd_cat args s (addToHistory s Input (Text l) s)"
  by (simp add: handleCommand_def)

lemma handle_search: "handleCommand l (''search'' # args) s = cmd_search args s (addToHistory s Input (Text l) s)"
  by (simp add: handleCommand_def)

lemma handle_rm: "handleCommand l (''rm'' # args) s = cmd_rm args s (addToHistory s Input (Text l) s)"
  by (simp add: handleCommand_def)

lemma handle_ls: "handleCommand l (''ls'' # args) s = cmd_ls s (addToHistory s Input (Text l) s)"
  by (simp add: handleCommand_def)

lemma find_updFirst_same:
  "(\<And>x. P x \<Longrightarrow> P (f x)) \<Longrightarrow> find P (updFirst P f xs) = map_option f (find P xs)"
  by (induction xs) auto

lemma find_updFirst_other:
  "(\<And>x. Q (f x) = Q x) \<Longrightarrow> (\<And>x. P x \<Longrightarrow> \<not> Q x) \<Longrightarrow> find Q (updFirst P f xs) = find Q xs"
  by (induction xs) auto

lemma name_updateAt: "(\<And>x. name (upd x) = name x) \<Longrightarrow> name (updateAt p upd c) = name c"
  by (cases p) auto

lemma ftype_updateAt: "(\<And>x. ftype (upd x) = ftype x) \<Longrightarrow> ftype (updateAt p upd c) = ftype c"
  by (cases p) auto

lemma walk_updateAt:
  assumes nm: "\<And>x. name (upd x) = name x" and ft: "\<And>x. ftype (upd x) = ftype x"
    and ch: "(\<forall>x. children (upd x) = children x) \<or> \<not> strict_prefix p q"
  shows "walk q (updateAt p upd cur) =
           map_option (\<lambda>n. if prefix q p then updateAt (drop (length q) p) upd n else n) (walk q cur)"
  using ch
proof (induction q arbitrary: p cur)
  case Nil
  then show ?case by simp
next
  case (Cons x q)
  show ?case
  proof (cases p)
    case Nil
    with Cons.prems have "\<forall>x. children (upd x) = children x" by auto
    with Nil show ?thesis by (simp add: ft option.map_ident)
  next
    case (Cons y p')
    show ?thesis
    proof (cases "x = y")
      case True
      have ch': "(\<forall>x. children (upd x) = children x) \<or> \<not> strict_prefix p' q"
        using Cons.prems Cons True by auto
      have "find (\<lambda>c. name c = y) (updFirst (\<lambda>c. name c = y) (\<lambda>c. updateAt p' upd c) cs) =
              map_option (\<lambda>c. updateAt p' upd c) (find (\<lambda>c. name c = y) cs)" for cs
        by (rule find_updFirst_same) (simp add: name_updateAt nm)
      then show ?thesis
        using Cons True Cons.IH [OF ch']
        by (auto split: option.splits cong: if_cong)
    next
      case False
      have "find (\<lambda>c. name c = x) (updFirst (\<lambda>c. name c = y) (\<lambda>c. updateAt p' upd c) cs) =
              find (\<lambda>c. name c = x) cs" for cs
        by (rule find_updFirst_other) (use False in \<open>simp_all add: name_updateAt nm\<close>)
      then show ?thesis
        using Cons False by (auto simp: option.map_ident split: option.splits)
    qed
  qed
qed

lemma assign_unlock_sel [simp]:
  "name (assign_unlock n) = name n" "ftype (assign_unlock n) = ftype n"
  "children (assign_unlock n) = children n" "content (assign_unlock n) = content n"
  "isHidden (assign_unlock n) = isHidden n" "password (assign_unlock n) = None"
  "isLocked (assign_unlock n) = False" "isEvidence (assign_unlock n) = isEvidence n"
  "scriptAction (assign_unlock n) = scriptAction n"
  by (simp_all add: assign_unlock_def)

lemma assign_reveal_sel [simp]:
  "name (assign_reveal n) = name n" "ftype (assign_reveal n) = ftype n"
  "children (assign_reveal n) = children n" "content (assign_reveal n) = content n"
  "isHidden (assign_reveal n) = False" "password (assign_reveal n) = password n"
  "isLocked (assign_reveal n) = isLocked n" "isEvidence (assign_reveal n) = isEvidence n"
  "scriptAction (assign_reveal n) = scriptAction n"
  by (simp_all add: assign_reveal_def)

lemma assign_children_sel [simp]:
  "name (assign_children cs n) = name n" "ftype (assign_children cs n) = ftype n"
  "children (assign_children cs n) = Some cs" "content (assign_children cs n) = content n"
  "isHidden (assign_children cs n) = isHidden n" "password (assign_children cs n) = password n"
  "isLocked (assign_children cs n) = isLocked n" "isEvidence (assign_children cs n) = isEvidence n"
  "scriptAction (assign_children cs n) = scriptAction n"
  by (simp_all add: assign_children_def)

lemma cloneEvidence_sel [simp]:
  "name (cloneEvidence n) = name n" "ftype (cloneEvidence n) = ftype n"
  "children (cloneEvidence n) = children n" "content (cloneEvidence n) = content n"
  "isHidden (cloneEvidence n) = isHidden n" "password (cloneEvidence n) = password n"
  "isLocked (cloneEvidence n) = isLocked n" "isEvidence (cloneEvidence n) = False"
  "scriptAction (cloneEvidence n) = scriptAction n"
  by (simp_all add: cloneEvidence_def)

lemma findNode_updateAt_target:
  assumes "findNode p fs = Some n" and "\<And>x. name (upd x) = name x" and "\<And>x. ftype (upd x) = ftype x"
  shows "findNode p (updateAt (pathTail p) upd fs) = Some (upd n)"
  using assms walk_updateAt [of upd "pathTail p" "pathTail p" fs]
  by (simp add: findNode_walk)

section \<open>Reading files\<close>

text \<open>
  C3. The claim that a FILE with a password is refused by \<^verbatim>\<open>cat\<close> without the
  matching secret does not hold of the handler, which never reads the field: in the sample
  tree \<^verbatim>\<open>secret.txt\<close> carries the password \<^verbatim>\<open>k\<close>, and \<^verbatim>\<open>cat secret.txt\<close>
  prints its content.
\<close>

theorem cat_ignores_password:
  "password (the (catTarget ''secret.txt'' demo)) = Some ''k'' \<and>
   ftype (the (catTarget ''secret.txt'' demo)) = FILE \<and>
   history (handleCommand ''cat secret.txt'' [''cat'', ''secret.txt''] demo) =
     [\<lparr>ltype = Input, lcontent = Text ''cat secret.txt'', lpath = Some ''/''\<rparr>,
      \<lparr>ltype = Output, lcontent = Text ''top'', lpath = None\<rparr>]"
  by code_simp

text \<open>
  C8. \<^verbatim>\<open>cat\<close> with an argument prints the file-not-found line when it settles on no
  node or on a node that is not a FILE, and the not-found-maybe-hidden line when it settles
  on a hidden FILE. In both cases the state is the old one plus the input line and that
  line: the ledger, the tree and the timers are unchanged and no content is printed.
\<close>

theorem cat_not_found:
  assumes "truthy (arg args 0)"
  shows "((case catTarget (args ! 0) s of None \<Rightarrow> True | Some f \<Rightarrow> ftype f \<noteq> FILE) \<longrightarrow>
            handleCommand l (''cat'' # args) s =
              addToHistory s Output (FileNotFound (args ! 0)) (addToHistory s Input (Text l) s)) \<and>
         ((\<exists>f. catTarget (args ! 0) s = Some f \<and> ftype f = FILE \<and> isHidden f) \<longrightarrow>
            handleCommand l (''cat'' # args) s =
              addToHistory s Output (FileNotFoundHidden (args ! 0))
                (addToHistory s Input (Text l) s)) \<and>
         ((case catTarget (args ! 0) s of None \<Rightarrow> True | Some f \<Rightarrow> ftype f \<noteq> FILE \<or> isHidden f) \<longrightarrow>
            evidenceCollected (handleCommand l (''cat'' # args) s) = evidenceCollected s \<and>
            fileSystem (handleCommand l (''cat'' # args) s) = fileSystem s \<and>
            timers (handleCommand l (''cat'' # args) s) = timers s \<and>
            length (history (handleCommand l (''cat'' # args) s)) = length (history s) + 2 \<and>
            lcontent (last (history (handleCommand l (''cat'' # args) s))) \<in>
              {FileNotFound (args ! 0), FileNotFoundHidden (args ! 0)})"
  using assms by (auto simp: handle_cat cmd_cat_def addToHistory_def split: option.splits)

theorem cat_not_found_witness:
  "history (handleCommand ''cat nothing'' [''cat'', ''nothing''] demo) =
     [\<lparr>ltype = Input, lcontent = Text ''cat nothing'', lpath = Some ''/''\<rparr>,
      \<lparr>ltype = Output, lcontent = FileNotFound ''nothing'', lpath = None\<rparr>] \<and>
   history (handleCommand ''cat home'' [''cat'', ''home''] demo) =
     [\<lparr>ltype = Input, lcontent = Text ''cat home'', lpath = Some ''/''\<rparr>,
      \<lparr>ltype = Output, lcontent = FileNotFound ''home'', lpath = None\<rparr>] \<and>
   isEvidence (the (catTarget ''ghost.txt'' demo)) \<and>
   history (handleCommand ''cat ghost.txt'' [''cat'', ''ghost.txt''] demo) =
     [\<lparr>ltype = Input, lcontent = Text ''cat ghost.txt'', lpath = Some ''/''\<rparr>,
      \<lparr>ltype = Output, lcontent = FileNotFoundHidden ''ghost.txt'', lpath = None\<rparr>] \<and>
   evidenceCollected (handleCommand ''cat ghost.txt'' [''cat'', ''ghost.txt''] demo) = {}"
proof -
  have a: "truthy (arg [''nothing''] 0)" "truthy (arg [''home''] 0)" "truthy (arg [''ghost.txt''] 0)"
    by code_simp+
  have t1: "catTarget ([''nothing''] ! 0) demo = None" by code_simp
  have t2: "catTarget ([''home''] ! 0) demo = Some (dirOf ''home'' [dirOf ''user'' []])" by code_simp
  have t3: "catTarget ([''ghost.txt''] ! 0) demo =
              Some (FileNode ''ghost.txt'' FILE (Some ''boo'') None True None False True None)"
    by code_simp
  have h: "history demo = []" "getPathString (currentPath demo) = ''/''" "evidenceCollected demo = {}"
    by code_simp+
  show ?thesis
    using cat_not_found [OF a(1), of demo "''cat nothing''"]
      cat_not_found [OF a(2), of demo "''cat home''"]
      cat_not_found [OF a(3), of demo "''cat ghost.txt''"] t1 t2 t3 h
    by (simp add: addToHistory_def dirOf_def)
qed

section \<open>Entering directories\<close>

text \<open>
  C9. \<^verbatim>\<open>cd\<close> does not look at \<^verbatim>\<open>isHidden\<close>: a hidden DIRECTORY without password is
  entered by name or path, the current path becomes the resolved one, and the tree is left
  as it is (the node stays hidden).
\<close>

theorem cd_hidden_directory:
  assumes "truthy (arg args 0)"
    and "resolvePath (args ! 0) (currentPath s) = Some targetPath"
    and "findNode targetPath (fileSystem s) = Some d"
    and "ftype d = DIRECTORY" and "isHidden d" and "\<not> truthy (password d)"
  shows "handleCommand l (''cd'' # args) s = (addToHistory s Input (Text l) s)\<lparr>currentPath := targetPath\<rparr> \<and>
         currentPath (handleCommand l (''cd'' # args) s) = targetPath \<and>
         fileSystem (handleCommand l (''cd'' # args) s) = fileSystem s \<and>
         findNode targetPath (fileSystem (handleCommand l (''cd'' # args) s)) = Some d"
  using assms by (simp add: handle_cd cmd_cd_def)

theorem cd_hidden_directory_witness:
  "isHidden (the (findNode ['''', ''cellar''] (fileSystem demo))) \<and>
   currentPath (handleCommand ''cd cellar'' [''cd'', ''cellar''] demo) = ['''', ''cellar'']"
proof -
  have a: "truthy (arg [''cellar''] 0)" by code_simp
  have b: "resolvePath ([''cellar''] ! 0) (currentPath demo) = Some ['''', ''cellar'']" by code_simp
  have c: "findNode ['''', ''cellar''] (fileSystem demo) =
             Some (FileNode ''cellar'' DIRECTORY None (Some []) True None False False None)"
    by code_simp
  show ?thesis
    using cd_hidden_directory [OF a b c, of "''cd cellar''"] c by (simp add: truthy_def)
qed




section \<open>Path strings\<close>

text \<open>
  For a path whose segments after the leading empty one are non-empty and free of slashes,
  the display string determines the path: only \<^verbatim>\<open>['', 'home', 'user']\<close> is shown as
  \<^verbatim>\<open>/home/user\<close>.
\<close>

lemma replaceFirst_skip:
  "CHR ''/'' \<notin> set x \<Longrightarrow> replaceFirst ''//'' ''/'' (x @ rest) = x @ replaceFirst ''//'' ''/'' rest"
  by (induction x) auto

lemma replaceFirst_segment:
  assumes "x \<noteq> []" and "CHR ''/'' \<notin> set x"
  shows "replaceFirst ''//'' ''/'' (CHR ''/'' # x @ rest) = CHR ''/'' # x @ replaceFirst ''//'' ''/'' rest"
proof -
  obtain c x' where x: "x = c # x'" using assms(1) by (cases x) auto
  with assms(2) have "c \<noteq> CHR ''/''" by auto
  then have "replaceFirst ''//'' ''/'' (CHR ''/'' # x @ rest) = CHR ''/'' # replaceFirst ''//'' ''/'' (x @ rest)"
    using x by simp
  then show ?thesis using replaceFirst_skip [OF assms(2)] by simp
qed

lemma join_Cons: "xs \<noteq> [] \<Longrightarrow> join sep (x # xs) = x @ sep @ join sep xs"
  by (cases xs) auto

lemma replaceFirst_joined:
  assumes "segs \<noteq> []" and "\<forall>x \<in> set segs. x \<noteq> [] \<and> CHR ''/'' \<notin> set x"
  shows "replaceFirst ''//'' ''/'' (CHR ''/'' # join ''/'' segs) = CHR ''/'' # join ''/'' segs"
  using assms
proof (induction segs rule: list_nonempty_induct)
  case (single x)
  then show ?case using replaceFirst_segment [of x "[]"] by simp
next
  case (cons x xs)
  then show ?case
    using replaceFirst_segment [of x "CHR ''/'' # join ''/'' xs"] by (simp add: join_Cons)
qed

lemma splitOn_nonempty: "splitOn d s \<noteq> []"
  by (induction s) (auto split: list.splits)

lemma splitOn_skip:
  "d \<notin> set x \<Longrightarrow> splitOn d (x @ rest) = (x @ hd (splitOn d rest)) # tl (splitOn d rest)"
proof (induction x)
  case Nil
  then show ?case using splitOn_nonempty [of d rest] by simp
next
  case (Cons c x)
  then show ?case by (auto split: list.splits)
qed

lemma splitOn_joined:
  assumes "segs \<noteq> []" and "\<forall>x \<in> set segs. CHR ''/'' \<notin> set x"
  shows "splitOn CHR ''/'' (join ''/'' segs) = segs"
  using assms
proof (induction segs rule: list_nonempty_induct)
  case (single x)
  then show ?case using splitOn_skip [of "CHR ''/''" x "[]"] by simp
next
  case (cons x xs)
  then show ?case
    using splitOn_skip [of "CHR ''/''" x "CHR ''/'' # join ''/'' xs"] by (simp add: join_Cons)
qed

lemma getPathString_home:
  assumes ok: "\<forall>x \<in> set segs. x \<noteq> [] \<and> CHR ''/'' \<notin> set x"
    and eq: "getPathString ([] # segs) = ''/home/user''"
  shows "segs = [''home'', ''user'']"
proof (cases segs)
  case Nil
  with eq show ?thesis by (simp add: getPathString_def)
next
  case (Cons x xs)
  then have ne: "segs \<noteq> []" by simp
  have j: "join ''/'' ([] # segs) = CHR ''/'' # join ''/'' segs" using ne by (simp add: join_Cons)
  have "getPathString ([] # segs) = CHR ''/'' # join ''/'' segs"
    using ne replaceFirst_joined [OF ne ok] unfolding getPathString_def j by simp
  with eq have "join ''/'' segs = ''home/user''" by simp
  moreover have "splitOn CHR ''/'' (join ''/'' segs) = segs"
    using splitOn_joined [OF ne] ok by blast
  moreover have "splitOn CHR ''/'' ''home/user'' = [''home'', ''user'']" by code_simp
  ultimately show ?thesis by simp
qed

section \<open>What the commands leave alone\<close>

lemma updateFileSystemNode_frame [simp]:
  "currentPath (snd (updateFileSystemNode p u (cl, acc))) = currentPath acc"
  "history (snd (updateFileSystemNode p u (cl, acc))) = history acc"
  "discoveredPaths (snd (updateFileSystemNode p u (cl, acc))) = discoveredPaths acc"
  "evidenceCollected (snd (updateFileSystemNode p u (cl, acc))) = evidenceCollected acc"
  "gameState (snd (updateFileSystemNode p u (cl, acc))) = gameState acc"
  "checkpoint (snd (updateFileSystemNode p u (cl, acc))) = checkpoint acc"
  "timers (snd (updateFileSystemNode p u (cl, acc))) = timers acc"
  "currentPath (fst (updateFileSystemNode p u (cl, acc))) = currentPath cl"
  "evidenceCollected (fst (updateFileSystemNode p u (cl, acc))) = evidenceCollected cl"
  "discoveredPaths (fst (updateFileSystemNode p u (cl, acc))) = discoveredPaths cl"
  by (simp_all add: updateFileSystemNode_def Let_def split: option.splits)

lemma collectEvidence_frame [simp]:
  "currentPath (snd (collectEvidence n (cl, acc))) = currentPath acc"
  "discoveredPaths (snd (collectEvidence n (cl, acc))) = discoveredPaths acc"
  "gameState (snd (collectEvidence n (cl, acc))) = gameState acc"
  "checkpoint (snd (collectEvidence n (cl, acc))) = checkpoint acc"
  "timers (snd (collectEvidence n (cl, acc))) = timers acc"
  "currentPath (fst (collectEvidence n (cl, acc))) = currentPath cl"
  "evidenceCollected (fst (collectEvidence n (cl, acc))) = evidenceCollected cl"
  "discoveredPaths (fst (collectEvidence n (cl, acc))) = discoveredPaths cl"
  by (simp_all add: collectEvidence_def Let_def split: option.splits)

lemma executeScript_frame [simp]:
  "fileSystem (executeScript a args cl acc) = fileSystem acc"
  "currentPath (executeScript a args cl acc) = currentPath acc"
  "discoveredPaths (executeScript a args cl acc) = discoveredPaths acc"
  "evidenceCollected (executeScript a args cl acc) = evidenceCollected acc"
  "gameState (executeScript a args cl acc) = gameState acc"
  by (simp_all add: executeScript_def setTimeout_def saveCheckpoint_def)

lemma executeScript_timers: "\<exists>ts. timers (executeScript a args cl acc) = timers acc @ ts"
  by (simp add: executeScript_def setTimeout_def saveCheckpoint_def)

lemma fire_frame [simp]:
  "fileSystem (fire t s) = fileSystem s"
  "currentPath (fire t s) = currentPath s"
  "discoveredPaths (fire t s) = discoveredPaths s"
  "evidenceCollected (fire t s) = evidenceCollected s"
  "timers (fire t s) = timers s"
  "checkpoint (fire t s) = checkpoint s"
  by (cases t; simp)+

lemma cmd_cd_frame [simp]:
  "discoveredPaths (cmd_cd args cl acc) = discoveredPaths acc"
  "timers (cmd_cd args cl acc) = timers acc"
  "evidenceCollected (cmd_cd args cl acc) = evidenceCollected acc"
  "gameState (cmd_cd args cl acc) = gameState acc"
  "checkpoint (cmd_cd args cl acc) = checkpoint acc"
  by (simp_all add: cmd_cd_def split: option.splits)

lemma cmd_cat_frame [simp]:
  "discoveredPaths (cmd_cat args cl acc) = discoveredPaths acc"
  "currentPath (cmd_cat args cl acc) = currentPath acc"
  "gameState (cmd_cat args cl acc) = gameState acc"
  by (simp_all add: cmd_cat_def case_prod_beta split: option.splits)


lemma cmd_cat_timers: "\<exists>ts. timers (cmd_cat args cl acc) = timers acc @ ts"
  using executeScript_timers
  by (simp add: cmd_cat_def case_prod_beta split: option.splits) (metis collectEvidence_frame(5))

lemma cmd_search_frame [simp]:
  "discoveredPaths (cmd_search args cl acc) = discoveredPaths acc"
  "timers (cmd_search args cl acc) = timers acc"
  "gameState (cmd_search args cl acc) = gameState acc"
  "checkpoint (cmd_search args cl acc) = checkpoint acc"
  by (simp_all add: cmd_search_def case_prod_beta Let_def split: option.splits)

lemma deleteNode_frame [simp]:
  "currentPath (deleteNode n cl acc) = currentPath acc"
  "history (deleteNode n cl acc) = history acc"
  "discoveredPaths (deleteNode n cl acc) = discoveredPaths acc"
  "evidenceCollected (deleteNode n cl acc) = evidenceCollected acc"
  "gameState (deleteNode n cl acc) = gameState acc"
  "checkpoint (deleteNode n cl acc) = checkpoint acc"
  "timers (deleteNode n cl acc) = timers acc"
  by (simp_all add: deleteNode_def split: option.splits)

lemma cmd_rm_frame [simp]:
  "discoveredPaths (cmd_rm args cl acc) = discoveredPaths acc"
  "timers (cmd_rm args cl acc) = timers acc"
  "currentPath (cmd_rm args cl acc) = currentPath acc"
  "gameState (cmd_rm args cl acc) = gameState acc"
  "checkpoint (cmd_rm args cl acc) = checkpoint acc"
  by (simp_all add: cmd_rm_def Let_def split: option.splits)

lemma cmd_run_frame [simp]:
  "discoveredPaths (cmd_run cmd args cl acc) = discoveredPaths acc"
  "fileSystem (cmd_run cmd args cl acc) = fileSystem acc"
  "currentPath (cmd_run cmd args cl acc) = currentPath acc"
  "evidenceCollected (cmd_run cmd args cl acc) = evidenceCollected acc"
  "gameState (cmd_run cmd args cl acc) = gameState acc"
  by (simp_all add: cmd_run_def Let_def split: option.splits)

lemma cmd_run_timers: "\<exists>ts. timers (cmd_run cmd args cl acc) = timers acc @ ts"
  using executeScript_timers by (simp add: cmd_run_def Let_def split: option.splits)

lemma cmd_ls_frame [simp]:
  "timers (cmd_ls cl acc) = timers acc"
  "fileSystem (cmd_ls cl acc) = fileSystem acc"
  "currentPath (cmd_ls cl acc) = currentPath acc"
  "evidenceCollected (cmd_ls cl acc) = evidenceCollected acc"
  "gameState (cmd_ls cl acc) = gameState acc"
  "checkpoint (cmd_ls cl acc) = checkpoint acc"
  by (simp_all add: cmd_ls_def Let_def split: option.splits)

lemma cmd_ls_discovered:
  "discoveredPaths (cmd_ls cl acc) =
     (if \<exists>d. findNode (currentPath cl) (fileSystem cl) = Some d \<and> ftype d = DIRECTORY
      then insert (getPathString (currentPath cl)) (discoveredPaths acc) else discoveredPaths acc)"
  by (simp add: cmd_ls_def Let_def split: option.splits)

lemma handle_help:
  "handleCommand l (''help'' # args) s = addToHistory s Output HelpText (addToHistory s Input (Text l) s)"
  by (simp add: handleCommand_def)

lemma handle_run:
  "cmd = disguise_sh \<or> cmd = alarm_sh \<or> cmd = ''./seconddemo.sh'' \<Longrightarrow>
   handleCommand l (cmd # args) s = cmd_run cmd args s (addToHistory s Input (Text l) s)"
  by (auto simp: handleCommand_def disguise_sh_def alarm_sh_def)

lemma handle_other:
  "cmd \<noteq> ''help'' \<Longrightarrow> cmd \<noteq> ''ls'' \<Longrightarrow> cmd \<noteq> ''cd'' \<Longrightarrow> cmd \<noteq> ''cat'' \<Longrightarrow>
   cmd \<noteq> ''search'' \<Longrightarrow> cmd \<noteq> ''rm'' \<Longrightarrow>
   \<not> (cmd = disguise_sh \<or> cmd = alarm_sh \<or> cmd = ''./seconddemo.sh'') \<Longrightarrow>
   handleCommand l (cmd # args) s =
     addToHistory s Output (CommandNotFound cmd) (addToHistory s Input (Text l) s)"
  by (simp add: handleCommand_def)

lemma handle_blank: "handleCommand l [] s = s"
  by (simp add: handleCommand_def)

lemma command_cases [case_names Blank Help Ls Cd Cat Search Rm Run Other]:
  assumes "parts = [] \<Longrightarrow> R"
    and "\<And>args. parts = ''help'' # args \<Longrightarrow> R"
    and "\<And>args. parts = ''ls'' # args \<Longrightarrow> R"
    and "\<And>args. parts = ''cd'' # args \<Longrightarrow> R"
    and "\<And>args. parts = ''cat'' # args \<Longrightarrow> R"
    and "\<And>args. parts = ''search'' # args \<Longrightarrow> R"
    and "\<And>args. parts = ''rm'' # args \<Longrightarrow> R"
    and "\<And>cmd args. parts = cmd # args \<Longrightarrow>
           cmd = disguise_sh \<or> cmd = alarm_sh \<or> cmd = ''./seconddemo.sh'' \<Longrightarrow> R"
    and "\<And>cmd args. parts = cmd # args \<Longrightarrow> cmd \<noteq> ''help'' \<Longrightarrow> cmd \<noteq> ''ls'' \<Longrightarrow>
           cmd \<noteq> ''cd'' \<Longrightarrow> cmd \<noteq> ''cat'' \<Longrightarrow> cmd \<noteq> ''search'' \<Longrightarrow> cmd \<noteq> ''rm'' \<Longrightarrow>
           \<not> (cmd = disguise_sh \<or> cmd = alarm_sh \<or> cmd = ''./seconddemo.sh'') \<Longrightarrow> R"
  shows R
proof (cases parts)
  case Nil
  then show ?thesis by (rule assms(1))
next
  case (Cons cmd args)
  show ?thesis
  proof (cases "cmd = ''help''")
    case True with Cons show ?thesis using assms(2) by blast
  next
    case n1: False
    show ?thesis
    proof (cases "cmd = ''ls''")
      case True with Cons show ?thesis using assms(3) by blast
    next
      case n2: False
      show ?thesis
      proof (cases "cmd = ''cd''")
        case True with Cons show ?thesis using assms(4) by blast
      next
        case n3: False
        show ?thesis
        proof (cases "cmd = ''cat''")
          case True with Cons show ?thesis using assms(5) by blast
        next
          case n4: False
          show ?thesis
          proof (cases "cmd = ''search''")
            case True with Cons show ?thesis using assms(6) by blast
          next
            case n5: False
            show ?thesis
            proof (cases "cmd = ''rm''")
              case True with Cons show ?thesis using assms(7) by blast
            next
              case n6: False
              show ?thesis
              proof (cases "cmd = disguise_sh \<or> cmd = alarm_sh \<or> cmd = ''./seconddemo.sh''")
                case True with Cons show ?thesis using assms(8) by blast
              next
                case False
                then show ?thesis using assms(9) [OF Cons n1 n2 n3 n4 n5 n6] by blast
              qed
            qed
          qed
        qed
      qed
    qed
  qed
qed

lemma handleCommand_timers: "\<exists>ts. timers (handleCommand l parts s) = timers s @ ts"
proof (cases parts rule: command_cases)
  case (Cat args)
  then show ?thesis using cmd_cat_timers [of args s "addToHistory s Input (Text l) s"]
    by (simp add: handle_cat)
next
  case (Run cmd args)
  then show ?thesis using cmd_run_timers [of cmd args s "addToHistory s Input (Text l) s"]
    by (simp add: handle_run)
qed (simp_all add: handle_blank handle_help handle_ls handle_cd handle_search handle_rm handle_other)

lemma handleCommand_gameState [simp]: "gameState (handleCommand l parts s) = gameState s"
  by (cases parts rule: command_cases)
     (simp_all add: handle_blank handle_help handle_ls handle_cd handle_cat handle_search handle_rm
        handle_run handle_other)

lemma run_timers: "\<exists>ts. timers (run cs s) = timers s @ ts"
proof (induction cs arbitrary: s)
  case Nil
  then show ?case by simp
next
  case (Cons c cs)
  obtain ts1 where "timers (handleCommand (fst c) (snd c) s) = timers s @ ts1"
    using handleCommand_timers by blast
  moreover obtain ts2 where "timers (run cs (handleCommand (fst c) (snd c) s)) =
      timers (handleCommand (fst c) (snd c) s) @ ts2"
    using Cons.IH by blast
  ultimately show ?case by simp
qed

lemma run_gameState [simp]: "gameState (run cs s) = gameState s"
  by (induction cs arbitrary: s) auto


lemma handleCommand_discovered:
  "discoveredPaths (handleCommand l parts s) =
     (if parts \<noteq> [] \<and> hd parts = ''ls'' \<and>
         (\<exists>d. findNode (currentPath s) (fileSystem s) = Some d \<and> ftype d = DIRECTORY)
      then insert (getPathString (currentPath s)) (discoveredPaths s) else discoveredPaths s)"
proof (cases parts rule: command_cases)
  case (Ls args)
  then show ?thesis by (auto simp: handle_ls cmd_ls_discovered)
next
  case (Run cmd args)
  then have "cmd \<noteq> ''ls''" by (auto simp: disguise_sh_def alarm_sh_def)
  with Run show ?thesis by (simp add: handle_run)
next
  case (Other cmd args)
  then show ?thesis by (simp add: handle_other)
qed (simp_all add: handle_blank handle_help handle_cd handle_cat handle_search handle_rm)

lemma run_discovered:
  "q \<in> discoveredPaths (run cs s) \<Longrightarrow> q \<notin> discoveredPaths s \<Longrightarrow>
     \<exists>pre c post. cs = pre @ c # post \<and> snd c \<noteq> [] \<and> hd (snd c) = ''ls'' \<and>
        getPathString (currentPath (run pre s)) = q"
proof (induction cs arbitrary: s)
  case Nil
  then show ?case by simp
next
  case (Cons c cs)
  let ?s1 = "handleCommand (fst c) (snd c) s"
  show ?case
  proof (cases "q \<in> discoveredPaths ?s1")
    case True
    with Cons.prems(2) have "snd c \<noteq> [] \<and> hd (snd c) = ''ls'' \<and> getPathString (currentPath s) = q"
      by (auto simp: handleCommand_discovered split: if_splits)
    then have "c # cs = [] @ c # cs \<and> snd c \<noteq> [] \<and> hd (snd c) = ''ls'' \<and>
        getPathString (currentPath (run [] s)) = q" by simp
    then show ?thesis by blast
  next
    case False
    with Cons.prems(1) Cons.IH [of ?s1] obtain pre d post where
      "cs = pre @ d # post" "snd d \<noteq> []" "hd (snd d) = ''ls''" "getPathString (currentPath (run pre ?s1)) = q"
      by auto
    then have "c # cs = (c # pre) @ d # post \<and> snd d \<noteq> [] \<and> hd (snd d) = ''ls'' \<and>
        getPathString (currentPath (run (c # pre) s)) = q" by simp
    then show ?thesis by blast
  qed
qed

section \<open>Discovery\<close>

text \<open>
  C5. After any command the discovered set is the old one, except that \<^verbatim>\<open>ls\<close> in a
  current node that is a DIRECTORY adds the display string of the current path and nothing
  else. \<^verbatim>\<open>cd\<close> never changes the set, nor does a firing timer. Over a whole session:
  a path string that has entered the set was the current path when some \<^verbatim>\<open>ls\<close> of
  the session ran, so listing \<^verbatim>\<open>/a\<close> does not put \<^verbatim>\<open>/a/b\<close> into the set.
\<close>

theorem discovered_only_by_ls:
  "discoveredPaths (handleCommand l parts s) =
     (if parts \<noteq> [] \<and> hd parts = ''ls'' \<and>
         (\<exists>d. findNode (currentPath s) (fileSystem s) = Some d \<and> ftype d = DIRECTORY)
      then insert (getPathString (currentPath s)) (discoveredPaths s) else discoveredPaths s) \<and>
   discoveredPaths (handleCommand l (''cd'' # args) s) = discoveredPaths s \<and>
   discoveredPaths (fireTimer i s) = discoveredPaths s \<and>
   (\<forall>cs q. q \<in> discoveredPaths (run cs s) \<and> q \<notin> discoveredPaths s \<longrightarrow>
      (\<exists>pre c post. cs = pre @ c # post \<and> snd c \<noteq> [] \<and> hd (snd c) = ''ls'' \<and>
         getPathString (currentPath (run pre s)) = q))"
proof -
  have "discoveredPaths (fireTimer i s) = discoveredPaths s"
    by (simp add: fireTimer_def)
  then show ?thesis
    using run_discovered [of _ _ s]
    by (simp add: handleCommand_discovered [of l parts s] handle_cd)
qed

theorem discovered_only_by_ls_witness:
  "discoveredPaths (run [(''cd a'', [''cd'', ''a'']), (''ls'', [''ls'']), (''cd b'', [''cd'', ''b''])] demo) =
     {''/'', ''/a''} \<and>
   currentPath (run [(''cd a'', [''cd'', ''a'']), (''ls'', [''ls'']), (''cd b'', [''cd'', ''b''])] demo) =
     ['''', ''a'', ''b''] \<and>
   discoveredPaths (handleCommand ''ls'' [''ls'']
     (run [(''cd a'', [''cd'', ''a'']), (''ls'', [''ls'']), (''cd b'', [''cd'', ''b''])] demo)) =
     {''/'', ''/a'', ''/a/b''}"
proof -
  let ?s3 = "run [(''cd a'', [''cd'', ''a'']), (''ls'', [''ls'']), (''cd b'', [''cd'', ''b''])] demo"
  have a: "discoveredPaths ?s3 = {''/'', ''/a''}" by code_simp
  have b: "currentPath ?s3 = ['''', ''a'', ''b'']" by code_simp
  have c: "findNode (currentPath ?s3) (fileSystem ?s3) = Some (dirOf ''b'' [])" by code_simp
  have d: "getPathString ['''', ''a'', ''b''] = ''/a/b''" by code_simp
  have e: "ftype (dirOf ''b'' []) = DIRECTORY" by code_simp
  have "discoveredPaths (handleCommand ''ls'' [''ls''] ?s3) = insert ''/a/b'' {''/'', ''/a''}"
    using discovered_only_by_ls [of "''ls''" "[''ls'']" ?s3 "[]" 0] c e
    unfolding a b d by simp
  then show ?thesis using a b by auto
qed

section \<open>Removing files\<close>

lemma find_filter_other: "find (\<lambda>c. name c = a) (filter (\<lambda>c. name c \<noteq> a) cs) = None"
  by (induction cs) auto

lemma find_Some_iff_ex: "(find P xs \<noteq> None) = (\<exists>x \<in> set xs. P x)"
  by (induction xs) auto

text \<open>
  C6. \<^verbatim>\<open>rm\<close> with an argument: when the display string of the current path is not
  \<^verbatim>\<open>/home/user\<close> it only prints the permission-denied line, whatever the argument.
  When it is, a missing child gives the file-not-found line, and an existing one is deleted
  from the current directory (all children of that name), the name leaves the ledger, and
  the deletion is reported. The path \<^verbatim>\<open>['', 'home', 'user']\<close> has that display string,
  and among paths with non-empty, slash-free segments it is the only one.
\<close>

theorem rm_only_in_intake:
  assumes a0: "truthy (arg args 0)"
  shows "(getPathString (currentPath s) \<noteq> ''/home/user'' \<longrightarrow>
            handleCommand l (''rm'' # args) s =
              addToHistory s Output RmDenied (addToHistory s Input (Text l) s)) \<and>
         (getPathString (currentPath s) = ''/home/user'' \<longrightarrow>
            (childNamed (args ! 0) (findNode (currentPath s) (fileSystem s)) = None \<longrightarrow>
               handleCommand l (''rm'' # args) s =
                 addToHistory s Output (RmNotFound (args ! 0)) (addToHistory s Input (Text l) s)) \<and>
            (\<forall>d cs. findNode (currentPath s) (fileSystem s) = Some d \<and> children d = Some cs \<and>
                 (\<exists>c \<in> set cs. name c = args ! 0) \<longrightarrow>
               (let s1 = handleCommand l (''rm'' # args) s
                in findNode (currentPath s) (fileSystem s1) =
                     Some (assign_children (filter (\<lambda>c. name c \<noteq> args ! 0) cs) d) \<and>
                   childNamed (args ! 0) (findNode (currentPath s) (fileSystem s1)) = None \<and>
                   evidenceCollected s1 = evidenceCollected s - {args ! 0} \<and>
                   currentPath s1 = currentPath s \<and>
                   history s1 = history (addToHistory s Output (FileDeleted (args ! 0))
                                  (addToHistory s Input (Text l) s))))) \<and>
         getPathString homeUserPath = ''/home/user'' \<and>
         (\<forall>segs. currentPath s = [] # segs \<and> (\<forall>x \<in> set segs. x \<noteq> [] \<and> CHR ''/'' \<notin> set x) \<and>
              currentPath s \<noteq> homeUserPath \<longrightarrow>
            getPathString (currentPath s) \<noteq> ''/home/user'')"
proof -
  let ?a = "args ! 0"
  let ?acc = "addToHistory s Input (Text l) s"
  have denied: "getPathString (currentPath s) \<noteq> ''/home/user'' \<Longrightarrow>
      handleCommand l (''rm'' # args) s = addToHistory s Output RmDenied ?acc"
    using a0 by (simp add: handle_rm cmd_rm_def)
  have missing: "getPathString (currentPath s) = ''/home/user'' \<Longrightarrow>
      childNamed ?a (findNode (currentPath s) (fileSystem s)) = None \<Longrightarrow>
      handleCommand l (''rm'' # args) s = addToHistory s Output (RmNotFound ?a) ?acc"
    using a0 by (simp add: handle_rm cmd_rm_def)
  have deleted: "findNode (currentPath s) (fileSystem s1) =
                     Some (assign_children (filter (\<lambda>c. name c \<noteq> ?a) cs) d) \<and>
                 childNamed ?a (findNode (currentPath s) (fileSystem s1)) = None \<and>
                 evidenceCollected s1 = evidenceCollected s - {?a} \<and>
                 currentPath s1 = currentPath s \<and>
                 history s1 = history (addToHistory s Output (FileDeleted ?a) ?acc)"
    if at: "getPathString (currentPath s) = ''/home/user''"
      and d: "findNode (currentPath s) (fileSystem s) = Some d" "children d = Some cs"
      and ex: "\<exists>c \<in> set cs. name c = ?a"
      and s1: "s1 = handleCommand l (''rm'' # args) s" for d cs s1
  proof -
    let ?del = "assign_children (filter (\<lambda>c. name c \<noteq> ?a) cs)"
    obtain c where c: "find (\<lambda>c. name c = ?a) cs = Some c"
      using ex find_Some_iff_ex [of "\<lambda>c. name c = ?a" cs] by auto
    have fs1: "fileSystem s1 = updateAt (pathTail (currentPath s)) ?del (fileSystem s)"
      using a0 at d c unfolding s1
      by (simp add: handle_rm cmd_rm_def childNamed_def deleteNode_def Let_def addToHistory_def)
    have look: "findNode (currentPath s) (fileSystem s1) = Some (?del d)"
      unfolding fs1 by (rule findNode_updateAt_target [OF d(1)]) simp_all
    have ev: "evidenceCollected s1 = evidenceCollected s - {?a}"
      using a0 at d c unfolding s1
      by (auto simp: handle_rm cmd_rm_def childNamed_def Let_def addToHistory_def)
    have rest: "currentPath s1 = currentPath s \<and>
        history s1 = history (addToHistory s Output (FileDeleted ?a) ?acc)"
      using a0 at d c unfolding s1
      by (auto simp: handle_rm cmd_rm_def childNamed_def Let_def addToHistory_def)
    show ?thesis using look ev rest by (simp add: childNamed_def find_filter_other)
  qed
  have home: "getPathString homeUserPath = ''/home/user''" by code_simp
  have wf: "getPathString (currentPath s) \<noteq> ''/home/user''"
    if "currentPath s = [] # segs" "\<forall>x \<in> set segs. x \<noteq> [] \<and> CHR ''/'' \<notin> set x"
      "currentPath s \<noteq> homeUserPath" for segs
    using that getPathString_home [of segs] by (auto simp: homeUserPath_def)
  show ?thesis
    unfolding Let_def using denied missing deleted home wf by blast
qed

theorem rm_only_in_intake_witness:
  "history (handleCommand ''rm clue.txt'' [''rm'', ''clue.txt''] demo) =
     [\<lparr>ltype = Input, lcontent = Text ''rm clue.txt'', lpath = Some ''/''\<rparr>,
      \<lparr>ltype = Output, lcontent = RmDenied, lpath = None\<rparr>] \<and>
   userFiles (fileSystem (handleCommand ''rm x'' [''rm'', ''x'']
      (stateOf (packedFS [''x'', ''y'']) homeUserPath {''x''}))) = [''y''] \<and>
   evidenceCollected (handleCommand ''rm x'' [''rm'', ''x'']
      (stateOf (packedFS [''x'', ''y'']) homeUserPath {''x''})) = {} \<and>
   lcontent (last (history (handleCommand ''rm z'' [''rm'', ''z'']
      (stateOf (packedFS [''x'', ''y'']) homeUserPath {''x''})))) = RmNotFound ''z''"
proof -
  let ?h = "stateOf (packedFS [''x'', ''y'']) homeUserPath {''x''}"
  have a: "truthy (arg [''clue.txt''] 0)" "truthy (arg [''x''] 0)" "truthy (arg [''z''] 0)"
    by code_simp+
  have p: "getPathString (currentPath demo) \<noteq> ''/home/user''"
    "getPathString (currentPath ?h) = ''/home/user''" by code_simp+
  have d: "findNode (currentPath ?h) (fileSystem ?h) = Some (dirOf ''user'' [fileOf ''x'' [], fileOf ''y'' []])"
    by code_simp
  have k: "children (dirOf ''user'' [fileOf ''x'' [], fileOf ''y'' []]) = Some [fileOf ''x'' [], fileOf ''y'' []]"
    "\<exists>c \<in> set [fileOf ''x'' [], fileOf ''y'' []]. name c = [''x''] ! 0"
    by (simp_all add: dirOf_def fileOf_def)
  have z: "childNamed ([''z''] ! 0) (findNode (currentPath ?h) (fileSystem ?h)) = None" by code_simp
  have h: "history demo = []" "getPathString (currentPath demo) = ''/''" "evidenceCollected ?h = {''x''}"
    "currentPath ?h = homeUserPath"
    by code_simp+
  have one: "history (handleCommand ''rm clue.txt'' [''rm'', ''clue.txt''] demo) =
     [\<lparr>ltype = Input, lcontent = Text ''rm clue.txt'', lpath = Some ''/''\<rparr>,
      \<lparr>ltype = Output, lcontent = RmDenied, lpath = None\<rparr>]"
    using rm_only_in_intake [OF a(1), of demo "''rm clue.txt''"] p(1) h
    by (simp add: addToHistory_def)
  have two: "findNode homeUserPath (fileSystem (handleCommand ''rm x'' [''rm'', ''x''] ?h)) =
        Some (assign_children (filter (\<lambda>c. name c \<noteq> ''x'') [fileOf ''x'' [], fileOf ''y'' []])
                (dirOf ''user'' [fileOf ''x'' [], fileOf ''y'' []])) \<and>
      evidenceCollected (handleCommand ''rm x'' [''rm'', ''x''] ?h) = {}"
    using rm_only_in_intake [OF a(2), of ?h "''rm x''"] p(2) d k h(3,4)
    unfolding Let_def by auto
  have three: "lcontent (last (history (handleCommand ''rm z'' [''rm'', ''z''] ?h))) = RmNotFound ''z''"
    using rm_only_in_intake [OF a(3), of ?h "''rm z''"] p(2) z
    by (simp add: addToHistory_def)
  show ?thesis using one two three by (simp add: userFiles_def fileOf_def)
qed

section \<open>The outcome of the disguise script is fixed when it starts\<close>

text \<open>
  C10. Once the disguise script has started with six or more names in the ledger, its
  continuation sits in the timer queue with the two booleans computed from the tree of
  that moment. Whatever commands run before it fires, it is still there, and firing it
  sets LOSE, sets WIN or prints the verification failure according to those booleans, not
  to the tree of the moment it fires.
\<close>

theorem disguise_outcome_fixed:
  assumes big: "6 \<le> card (evidenceCollected cl)"
  shows "\<forall>cs. (let s2 = run cs (executeScript ''DISGUISE_SCRIPT'' args cl acc);
                  k = length (timers acc);
                  lose = hasForbidden (fileSystem cl);
                  win = hasAllRequired (fileSystem cl)
              in k < length (timers s2) \<and>
                 timers s2 ! k = (2000, DisguiseT lose win) \<and>
                 gameState (fireTimer k s2) =
                   (if lose then LOSE else if win then WIN else gameState s2) \<and>
                 history (fireTimer k s2) =
                   (if lose \<or> win then history s2
                    else history s2 @ [\<lparr>ltype = Output, lcontent = VerifyFailed, lpath = None\<rparr>]))"
proof
  fix cs
  let ?s1 = "executeScript ''DISGUISE_SCRIPT'' args cl acc"
  let ?t = "(2000::nat, DisguiseT (hasForbidden (fileSystem cl)) (hasAllRequired (fileSystem cl)))"
  have t1: "timers ?s1 = timers acc @ [?t]"
    using big by (simp add: executeScript_def setTimeout_def saveCheckpoint_def)
  obtain ts where ts: "timers (run cs ?s1) = timers ?s1 @ ts"
    using run_timers by blast
  have t2: "timers (run cs ?s1) = timers acc @ ?t # ts"
    using t1 ts by simp
  have k: "length (timers acc) < length (timers (run cs ?s1))" using t2 by simp
  have nth: "timers (run cs ?s1) ! length (timers acc) = ?t" using t2 by (simp add: nth_append)
  show "let s2 = run cs ?s1; k = length (timers acc);
            lose = hasForbidden (fileSystem cl); win = hasAllRequired (fileSystem cl)
        in k < length (timers s2) \<and> timers s2 ! k = (2000, DisguiseT lose win) \<and>
           gameState (fireTimer k s2) = (if lose then LOSE else if win then WIN else gameState s2) \<and>
           history (fireTimer k s2) =
             (if lose \<or> win then history s2
              else history s2 @ [\<lparr>ltype = Output, lcontent = VerifyFailed, lpath = None\<rparr>])"
    unfolding Let_def using k nth by (simp add: fireTimer_def addToHistory_def)
qed

theorem disguise_outcome_fixed_witness:
  "hasForbidden (fileSystem (stateOf (scriptFS (required @ forbidden)) [''''] (set required))) \<and>
   \<not> hasForbidden (fileSystem (run raceSession
        (handleCommand disguise_sh [disguise_sh]
           (stateOf (scriptFS (required @ forbidden)) [''''] (set required))))) \<and>
   hasAllRequired (fileSystem (run raceSession
        (handleCommand disguise_sh [disguise_sh]
           (stateOf (scriptFS (required @ forbidden)) [''''] (set required))))) \<and>
   gameState (fireTimer 0 (run raceSession
        (handleCommand disguise_sh [disguise_sh]
           (stateOf (scriptFS (required @ forbidden)) [''''] (set required))))) = LOSE"
proof -
  let ?s = "stateOf (scriptFS (required @ forbidden)) [''''] (set required)"
  let ?acc = "addToHistory ?s Input (Text disguise_sh) ?s"
  have inv: "handleCommand disguise_sh [disguise_sh] ?s = executeScript ''DISGUISE_SCRIPT'' [] ?s ?acc"
    by code_simp
  have big: "6 \<le> card (evidenceCollected ?s)" by code_simp
  have f0: "hasForbidden (fileSystem ?s)" by code_simp
  have f1: "\<not> hasForbidden (fileSystem (run raceSession (executeScript ''DISGUISE_SCRIPT'' [] ?s ?acc)))"
    by code_simp
  have r1: "hasAllRequired (fileSystem (run raceSession (executeScript ''DISGUISE_SCRIPT'' [] ?s ?acc)))"
    by code_simp
  have tm: "timers ?acc = []" by code_simp
  show ?thesis
    using disguise_outcome_fixed [OF big, of "[]" ?acc, THEN spec, of raceSession] f0 f1 r1
    unfolding inv Let_def tm by simp
qed

section \<open>Collecting evidence\<close>


























section \<open>Searching\<close>










end
